theory Spec2Isabelle
  imports Main
begin

section \<open>JavaScript values used by server.js\<close>

text \<open>
  The program only handles three kinds of JavaScript values: \<open>undefined\<close> (an
  environment variable that is not set), strings (every value of \<open>process.env\<close> is a
  string) and the number literal \<open>3000\<close>.
\<close>

datatype js_val = Undefined | Str string | Num int

text \<open>JavaScript truthiness: \<open>undefined\<close>, the empty string and \<open>0\<close> are falsy.\<close>

fun truthy :: "js_val \<Rightarrow> bool" where
  "truthy Undefined = False"
| "truthy (Str s) = (s \<noteq> [])"
| "truthy (Num n) = (n \<noteq> 0)"

text \<open>The operator \<open>a || b\<close>: the left operand when it is truthy, else the right one.\<close>

definition js_or :: "js_val \<Rightarrow> js_val \<Rightarrow> js_val" where
  "js_or a b = (if truthy a then a else b)"

text \<open>\<open>process.env\<close> is a dictionary from names to strings; a missing name reads as
  \<open>undefined\<close>.\<close>

type_synonym environ = "string \<rightharpoonup> string"

definition getenv :: "environ \<Rightarrow> string \<Rightarrow> js_val" where
  "getenv e k = (case e k of None \<Rightarrow> Undefined | Some s \<Rightarrow> Str s)"

section \<open>JSON bodies\<close>

datatype json = JString string | JNumber int | JObject "(string \<times> json) list"

text \<open>
  \<open>res.json(obj)\<close> sends \<open>JSON.stringify(obj)\<close>. For the flat object literals of
  server.js this keeps the properties in the order they are written and leaves out a
  property whose value is \<open>undefined\<close>. The body is modelled as the JSON value that the
  text denotes.
\<close>

fun json_field :: "string \<times> js_val \<Rightarrow> (string \<times> json) option" where
  "json_field (k, Undefined) = None"
| "json_field (k, Str s) = Some (k, JString s)"
| "json_field (k, Num n) = Some (k, JNumber n)"

definition stringify :: "(string \<times> js_val) list \<Rightarrow> json" where
  "stringify obj = JObject (List.map_filter json_field obj)"

section \<open>The installed framework\<close>

text \<open>
  \<open>require('express')\<close> loads whichever Express is installed; server.js itself does
  not say which. Two things that differ between installations matter for the replies:
  the major version (Express 4 and Express 5 compile route paths and judge the
  freshness of a cached reply differently) and the function that computes the entity
  tag of a body (by default a weak tag made of the length and a hash of the body text).
  Both are parameters of the model.
\<close>

datatype express_major = Express4 | Express5

record framework =
  major :: express_major
  etag_fn :: "json \<Rightarrow> string"

text \<open>An entity-tag function for concrete examples: it tells the two bodies of this
  service apart by their field names.\<close>

definition sample_etag :: "json \<Rightarrow> string" where
  "sample_etag b = (case b of JObject kvs \<Rightarrow> ''W/'' @ concat (map fst kvs) | _ \<Rightarrow> ''W/v'')"

section \<open>Requests, responses and the process state\<close>

datatype http_method = GET | HEAD | POST | PUT | DELETE | PATCH | OPTIONS

text \<open>The header \<open>If-None-Match\<close> of a request: absent, \<open>*\<close>, or a list of entity
  tags.\<close>

datatype none_match = NoTag | AnyTag | Tags "string list"

text \<open>
  A request, as far as Express looks at it when it serves this application:
  \<open>req.method\<close>, the path of \<open>req.url\<close> (empty when the request target has none), the
  header \<open>If-None-Match\<close>, whether a header \<open>If-Modified-Since\<close> is present, and
  whether the header \<open>Cache-Control\<close> contains \<open>no-cache\<close>.
\<close>

record request = req_method :: http_method  path :: string
  if_none_match :: none_match  if_modified_since :: bool  no_cache :: bool

text \<open>The response object handed to a handler: Node creates it with status code 200
  and nothing sent yet.\<close>

record res =
  statusCode :: nat
  body :: "json option"

definition fresh_res :: res where
  "fresh_res = \<lparr>statusCode = 200, body = None\<rparr>"

text \<open>An entity tag of the request matches the tag of the reply when they are equal up
  to the weak prefix.\<close>

definition tag_match :: "string \<Rightarrow> string \<Rightarrow> bool" where
  "tag_match m t = (m = t \<or> m = ''W/'' @ t \<or> ''W/'' @ m = t)"

text \<open>
  Whether the request headers say that the client's cached copy is still fresh, given
  the entity tag of the reply (the empty string when none is set). The reply of
  \<open>res.json\<close> never carries \<open>Last-Modified\<close>, so a test of \<open>If-Modified-Since\<close>
  always finds the copy stale. Express 4 requires both tests to pass; in Express 5 the
  header \<open>If-None-Match\<close>, when present, decides alone.
\<close>

definition fresh :: "express_major \<Rightarrow> request \<Rightarrow> string \<Rightarrow> bool" where
  "fresh v req tag =
     (if if_none_match req = NoTag \<and> \<not> if_modified_since req then False
      else if no_cache req then False
      else (case v of
              Express4 \<Rightarrow>
                (case if_none_match req of
                   Tags ts \<Rightarrow> tag \<noteq> [] \<and> list_ex (\<lambda>m. tag_match m tag) ts
                 | _ \<Rightarrow> True)
                \<and> \<not> if_modified_since req
            | Express5 \<Rightarrow>
                (case if_none_match req of
                   NoTag \<Rightarrow> False
                 | AnyTag \<Rightarrow> True
                 | Tags ts \<Rightarrow> tag \<noteq> [] \<and> list_ex (\<lambda>m. tag_match m tag) ts)))"

text \<open>\<open>req.fresh\<close>: only \<open>GET\<close> and \<open>HEAD\<close> with a status 2xx or 304 can be fresh.\<close>

definition req_fresh :: "framework \<Rightarrow> request \<Rightarrow> res \<Rightarrow> string \<Rightarrow> bool" where
  "req_fresh fw req r tag =
     ((req_method req = GET \<or> req_method req = HEAD) \<and>
      ((200 \<le> statusCode r \<and> statusCode r < 300) \<or> statusCode r = 304) \<and>
      fresh (major fw) req tag)"

text \<open>
  \<open>res.json(obj)\<close> hands the JSON text to \<open>res.send\<close>. With the default settings,
  which server.js does not change, \<open>res.send\<close> computes the entity tag of the body; if
  the request is fresh it sets the status to 304; a reply with status 204 or 304 and a
  reply to \<open>HEAD\<close> are sent without a body.
\<close>

definition res_json :: "framework \<Rightarrow> request \<Rightarrow> (string \<times> js_val) list \<Rightarrow> res \<Rightarrow> res" where
  "res_json fw req obj r =
     (let b = stringify obj;
          tag = etag_fn fw b;
          r' = (if req_fresh fw req r tag then r\<lparr>statusCode := 304\<rparr> else r)
      in if statusCode r' = 204 \<or> statusCode r' = 304 \<or> req_method req = HEAD
         then r'\<lparr>body := None\<rparr>
         else r'\<lparr>body := Some b\<rparr>)"

text \<open>
  The state of the running process: the environment \<open>process.env\<close> (which code running
  in the process may assign to), the module constant \<open>PORT\<close>, the port handed to
  \<open>app.listen\<close> (the exported \<open>server\<close>), and what has been written to the console.
\<close>

record process =
  env :: environ
  PORT :: js_val
  server :: js_val
  console :: "string list"

text \<open>A handler \<open>(req, res) => ...\<close> runs inside the process: it may read and change
  the process state and it fills in the response.\<close>

type_synonym handler = "framework \<Rightarrow> process \<Rightarrow> request \<Rightarrow> res \<Rightarrow> res \<times> process"

section \<open>The two handlers of server.js\<close>

definition root_handler :: handler where
  "root_handler fw p req r =
     (res_json fw req
        [(''message'', Str ''Hello from Jenkins CI/CD!''),
         (''version'', js_or (getenv (env p) ''VERSION'') (Str ''1.0.0''))] r, p)"

definition health_handler :: handler where
  "health_handler fw p req r = (res_json fw req [(''status'', Str ''healthy'')] r, p)"

section \<open>Routing\<close>

text \<open>
  \<open>app.get(path, handler)\<close> appends a route to the application. The application is
  created by \<open>express()\<close> with its default settings, so neither \<open>strict routing\<close> nor
  \<open>case sensitive routing\<close> is enabled: a literal route path is compiled to a regular
  expression that ignores the case of letters and allows one optional trailing slash.
  Express 4 compiles \<open>/health\<close> to \<open>^\/health\/?$\<close> and \<open>/\<close> to \<open>^\/?$\<close>. Express 5
  first removes trailing slashes from a route path other than \<open>/\<close> and then allows one
  more slash after it, so that \<open>/\<close> becomes \<open>^(?:\/)(?:\/$)?$\<close>. The expression is
  matched against the path of the request, without its query string.
\<close>

text \<open>Letter case is ignored on the ASCII letters \<open>A\<close> to \<open>Z\<close> (codes 65 to 90).\<close>

definition lower_char :: "char \<Rightarrow> char" where
  "lower_char c =
     (let n = (of_char c :: nat) in if 65 \<le> n \<and> n \<le> 90 then char_of (n + 32) else c)"

definition lower :: "string \<Rightarrow> string" where
  "lower s = map lower_char s"

definition loosen :: "string \<Rightarrow> string" where
  "loosen pat =
     (if pat = ''/'' then pat else rev (dropWhile (\<lambda>c. c = CHR ''/'') (rev pat)))"

definition route_matches :: "express_major \<Rightarrow> string \<Rightarrow> string \<Rightarrow> bool" where
  "route_matches v pat s =
     (case v of
        Express4 \<Rightarrow>
          (if pat \<noteq> [] \<and> last pat = CHR ''/''
           then lower s = lower pat \<or> lower s = lower (butlast pat)
           else lower s = lower pat \<or> lower s = lower pat @ ''/'')
      | Express5 \<Rightarrow>
          (lower s = lower (loosen pat) \<or> lower s = lower (loosen pat) @ ''/''))"

type_synonym route = "string \<times> handler"

definition app_get :: "string \<Rightarrow> handler \<Rightarrow> route list \<Rightarrow> route list" where
  "app_get pat h rs = rs @ [(pat, h)]"

text \<open>The application of server.js: the root route is registered first, then the
  health route.\<close>

definition app :: "route list" where
  "app = app_get ''/health'' health_handler (app_get ''/'' root_handler [])"

text \<open>
  What a request ends in: a response sent by a handler, the framework's automatic reply
  to an \<open>OPTIONS\<close> request on a path that has a route, or nothing handled at all, in
  which case the framework's default not-found handling answers.
\<close>

datatype outcome = Responded res | AutoOptions | Fallthrough

text \<open>A route registered with \<open>app.get\<close> handles \<open>GET\<close> and, as no \<open>HEAD\<close> handler
  exists, \<open>HEAD\<close> as well.\<close>

definition handles_method :: "http_method \<Rightarrow> bool" where
  "handles_method m = (m = GET \<or> m = HEAD)"

text \<open>
  The router walks the routes in registration order. The first route whose path matches
  and which handles the method runs its handler; neither handler of server.js calls
  \<open>next\<close>, so the walk ends there.
\<close>

fun dispatch ::
  "framework \<Rightarrow> route list \<Rightarrow> bool \<Rightarrow> process \<Rightarrow> request \<Rightarrow> outcome \<times> process" where
  "dispatch fw [] seen p req =
     (if req_method req = OPTIONS \<and> seen then (AutoOptions, p) else (Fallthrough, p))"
| "dispatch fw ((pat, h) # rs) seen p req =
     (if route_matches (major fw) pat (path req) then
        (if handles_method (req_method req) then
           (case h fw p req fresh_res of (r, p') \<Rightarrow> (Responded r, p'))
         else dispatch fw rs True p req)
      else dispatch fw rs seen p req)"

text \<open>A request whose target has no path is given up by the router before any route is
  tried.\<close>

definition handle_request :: "framework \<Rightarrow> process \<Rightarrow> request \<Rightarrow> outcome \<times> process" where
  "handle_request fw p req =
     (if path req = [] then (Fallthrough, p) else dispatch fw app False p req)"

section \<open>Start of the process\<close>

text \<open>The decimal text of a number, as a template literal renders it.\<close>

fun digits :: "nat \<Rightarrow> string" where
  "digits n =
     (if n < 10 then [char_of (48 + n)] else digits (n div 10) @ [char_of (48 + n mod 10)])"

declare digits.simps [simp del]

fun to_text :: "js_val \<Rightarrow> string" where
  "to_text Undefined = ''undefined''"
| "to_text (Str s) = s"
| "to_text (Num n) = (if n < 0 then CHR ''-'' # digits (nat (- n)) else digits (nat n))"

text \<open>
  Loading the module evaluates \<open>const PORT = process.env.PORT || 3000\<close> once, registers
  the two routes and calls \<open>app.listen(PORT, callback)\<close>; the returned server is what
  the module exports.
\<close>

definition startup :: "environ \<Rightarrow> process" where
  "startup e =
     (let port = js_or (getenv e ''PORT'') (Num 3000)
      in \<lparr>env = e, PORT = port, server = port, console = []\<rparr>)"

text \<open>The callback of \<open>app.listen\<close>, run once the server is listening.\<close>

definition on_listening :: "process \<Rightarrow> process" where
  "on_listening p = p\<lparr>console := console p @ [''Server running on port '' @ to_text (PORT p)]\<rparr>"

text \<open>A process that has started in environment \<open>e\<close> and is listening.\<close>

definition started :: "environ \<Rightarrow> process" where
  "started e = on_listening (startup e)"

text \<open>An assignment \<open>process.env[k] = v\<close> and a \<open>delete process.env[k]\<close> made by code
  in the running process (server.js itself makes none).\<close>

definition setenv :: "string \<Rightarrow> string \<Rightarrow> process \<Rightarrow> process" where
  "setenv k v p = p\<lparr>env := (env p)(k \<mapsto> v)\<rparr>"

definition unsetenv :: "string \<Rightarrow> process \<Rightarrow> process" where
  "unsetenv k p = p\<lparr>env := (env p)(k := None)\<rparr>"

text \<open>Serving a sequence of requests, one after the other.\<close>

fun serve :: "framework \<Rightarrow> process \<Rightarrow> request list \<Rightarrow> outcome list \<times> process" where
  "serve fw p [] = ([], p)"
| "serve fw p (req # reqs) =
     (case handle_request fw p req of (out, p') \<Rightarrow>
        (case serve fw p' reqs of (outs, p'') \<Rightarrow> (out # outs, p'')))"

text \<open>What can happen in a running process: a request arrives, or code in the process
  changes the environment.\<close>

datatype event = Request request | Assign string string | Delete string

fun step :: "framework \<Rightarrow> process \<Rightarrow> event \<Rightarrow> process" where
  "step fw p (Request req) = snd (handle_request fw p req)"
| "step fw p (Assign k v) = setenv k v p"
| "step fw p (Delete k) = unsetenv k p"

definition run :: "framework \<Rightarrow> process \<Rightarrow> event list \<Rightarrow> process" where
  "run fw p evs = foldl (step fw) p evs"

text \<open>Whether an event assigns to or deletes the environment variable \<open>k\<close>.\<close>

fun touches :: "string \<Rightarrow> event \<Rightarrow> bool" where
  "touches k (Request req) = False"
| "touches k (Assign k' v) = (k = k')"
| "touches k (Delete k') = (k = k')"

section \<open>Reading a response\<close>

text \<open>The field \<open>k\<close> of the JSON object a client receives, as in
  \<open>response.body.version\<close>.\<close>

fun body_field :: "string \<Rightarrow> outcome \<Rightarrow> json option" where
  "body_field k (Responded r) =
     (case body r of Some (JObject kvs) \<Rightarrow> map_of kvs k | _ \<Rightarrow> None)"
| "body_field k AutoOptions = None"
| "body_field k Fallthrough = None"

text \<open>The two requests the service is probed with (plain \<open>GET\<close>s without cache
  headers), the two replies the handlers are meant to give, and the reply to a fresh
  conditional request.\<close>

definition root_request :: request where
  "root_request = \<lparr>req_method = GET, path = ''/'', if_none_match = NoTag,
     if_modified_since = False, no_cache = False\<rparr>"

definition health_request :: request where
  "health_request = \<lparr>req_method = GET, path = ''/health'', if_none_match = NoTag,
     if_modified_since = False, no_cache = False\<rparr>"

definition greeting :: "string \<Rightarrow> outcome" where
  "greeting v = Responded \<lparr>statusCode = 200,
     body = Some (JObject [(''message'', JString ''Hello from Jenkins CI/CD!''),
                           (''version'', JString v)])\<rparr>"

definition healthy :: outcome where
  "healthy = Responded \<lparr>statusCode = 200,
     body = Some (JObject [(''status'', JString ''healthy'')])\<rparr>"

definition not_modified :: outcome where
  "not_modified = Responded \<lparr>statusCode = 304, body = None\<rparr>"

section \<open>The paths that reach a handler, spelt out\<close>

text \<open>
  \<open>spelt s alts\<close>: the string \<open>s\<close> has as many characters as \<open>alts\<close> has entries, and
  each character is one of those allowed at its place.
\<close>

definition spelt :: "string \<Rightarrow> string list \<Rightarrow> bool" where
  "spelt s alts = list_all2 (\<lambda>c alt. c \<in> set alt) s alts"

text \<open>The paths of the root route: \<open>/\<close>, and under Express 5 also \<open>//\<close>.\<close>

definition routed_root :: "express_major \<Rightarrow> string \<Rightarrow> bool" where
  "routed_root v s = (s = ''/'' \<or> (v = Express5 \<and> s = ''//''))"

text \<open>The paths of the health route: \<open>/health\<close> with each letter in either case, with
  or without one slash after it.\<close>

definition routed_health :: "string \<Rightarrow> bool" where
  "routed_health s =
     (spelt s [''/'', ''hH'', ''eE'', ''aA'', ''lL'', ''tT'', ''hH''] \<or>
      spelt s [''/'', ''hH'', ''eE'', ''aA'', ''lL'', ''tT'', ''hH'', ''/''])"

section \<open>Facts about letter case and route matching\<close>

lemma lower_char_letter:
  assumes "65 \<le> (of_char y :: nat)" and "(of_char y :: nat) \<le> 90"
    and "(of_char x :: nat) = of_char y + 32"
  shows "lower_char c = x \<longleftrightarrow> (c = x \<or> c = y)"
proof
  assume h: "lower_char c = x"
  show "c = x \<or> c = y"
  proof (cases "65 \<le> (of_char c :: nat) \<and> (of_char c :: nat) \<le> 90")
    case True
    then have "char_of ((of_char c :: nat) + 32) = x"
      using h by (simp add: lower_char_def Let_def)
    then have "(of_char (char_of ((of_char c :: nat) + 32) :: char) :: nat) = of_char x"
      by simp
    then have "((of_char c :: nat) + 32) mod 256 = of_char x" by simp
    with True assms have "(of_char c :: nat) = of_char y" by simp
    then have "char_of (of_char c :: nat) = (char_of (of_char y :: nat) :: char)" by simp
    then show ?thesis by simp
  next
    case False
    then show ?thesis using h by (auto simp add: lower_char_def Let_def)
  qed
next
  assume "c = x \<or> c = y"
  then show "lower_char c = x"
  proof
    assume "c = x"
    with assms show ?thesis by (simp add: lower_char_def Let_def)
  next
    assume c: "c = y"
    with assms have "lower_char c = char_of ((of_char y :: nat) + 32)"
      by (simp add: lower_char_def Let_def)
    also have "\<dots> = char_of (of_char x :: nat)" using assms by simp
    finally show ?thesis by simp
  qed
qed

lemma lower_char_h: "lower_char c = CHR ''h'' \<longleftrightarrow> c = CHR ''h'' \<or> c = CHR ''H''"
  by (rule lower_char_letter) simp_all

lemma lower_char_e: "lower_char c = CHR ''e'' \<longleftrightarrow> c = CHR ''e'' \<or> c = CHR ''E''"
  by (rule lower_char_letter) simp_all

lemma lower_char_a: "lower_char c = CHR ''a'' \<longleftrightarrow> c = CHR ''a'' \<or> c = CHR ''A''"
  by (rule lower_char_letter) simp_all

lemma lower_char_l: "lower_char c = CHR ''l'' \<longleftrightarrow> c = CHR ''l'' \<or> c = CHR ''L''"
  by (rule lower_char_letter) simp_all

lemma lower_char_t: "lower_char c = CHR ''t'' \<longleftrightarrow> c = CHR ''t'' \<or> c = CHR ''T''"
  by (rule lower_char_letter) simp_all

lemma lower_char_slash: "lower_char c = CHR ''/'' \<longleftrightarrow> c = CHR ''/''"
proof
  assume h: "lower_char c = CHR ''/''"
  show "c = CHR ''/''"
  proof (cases "65 \<le> (of_char c :: nat) \<and> (of_char c :: nat) \<le> 90")
    case True
    then have "char_of ((of_char c :: nat) + 32) = CHR ''/''"
      using h by (simp add: lower_char_def Let_def)
    then have "(of_char (char_of ((of_char c :: nat) + 32) :: char) :: nat) = of_char CHR ''/''"
      by simp
    then have "((of_char c :: nat) + 32) mod 256 = 47" by simp
    with True show ?thesis by simp
  next
    case False
    then show ?thesis using h by (auto simp add: lower_char_def Let_def)
  qed
next
  assume "c = CHR ''/''"
  then show "lower_char c = CHR ''/''" by (simp add: lower_char_def Let_def)
qed

lemmas lower_chars = lower_char_slash lower_char_h lower_char_e lower_char_a lower_char_l
  lower_char_t

lemma lower_slash: "lower s = ''/'' \<longleftrightarrow> s = ''/''"
  by (cases s) (auto simp add: lower_def lower_char_slash)

lemma lower_slash2: "lower s = ''//'' \<longleftrightarrow> s = ''//''"
  by (auto simp add: lower_def lower_char_slash map_eq_Cons_conv)

lemma lower_nil: "lower s = [] \<longleftrightarrow> s = []"
  by (simp add: lower_def)

lemma lower_health:
  "lower s = ''/health'' \<longleftrightarrow> spelt s [''/'', ''hH'', ''eE'', ''aA'', ''lL'', ''tT'', ''hH'']"
  by (auto simp add: lower_def spelt_def map_eq_Cons_conv list_all2_Cons2 lower_chars)

lemma lower_health_slash:
  "lower s = ''/health/'' \<longleftrightarrow>
   spelt s [''/'', ''hH'', ''eE'', ''aA'', ''lL'', ''tT'', ''hH'', ''/'']"
  by (auto simp add: lower_def spelt_def map_eq_Cons_conv list_all2_Cons2 lower_chars)

lemma lower_lits: "lower ''/'' = ''/''" "lower ''/health'' = ''/health''" "lower [] = []"
  by (simp_all add: lower_def lower_char_def Let_def)

lemma loosen_lits: "loosen ''/'' = ''/''" "loosen ''/health'' = ''/health''"
  by (simp_all add: loosen_def)

lemma rm_root: "s \<noteq> [] \<Longrightarrow> route_matches v ''/'' s = routed_root v s"
  by (cases v)
     (auto simp add: route_matches_def routed_root_def lower_lits loosen_lits lower_slash
        lower_slash2 lower_nil)

lemma rm_health: "route_matches v ''/health'' s = routed_health s"
  by (cases v)
     (simp_all add: route_matches_def routed_health_def lower_lits loosen_lits lower_health
        lower_health_slash)

section \<open>Facts about the handlers\<close>

lemma version_str:
  "js_or (getenv e ''VERSION'') (Str ''1.0.0'') =
   Str (case e ''VERSION'' of None \<Rightarrow> ''1.0.0'' | Some v \<Rightarrow> if v = [] then ''1.0.0'' else v)"
  by (simp add: js_or_def getenv_def split: option.splits)

lemma fresh_plain: "if_none_match req = NoTag \<Longrightarrow> \<not> if_modified_since req \<Longrightarrow> \<not> fresh v req tag"
  by (simp add: fresh_def)

lemma fresh_path: "fresh v (req\<lparr>path := s\<rparr>) tag = fresh v req tag"
  by (cases v) (simp_all add: fresh_def)

lemma res_json_get:
  "req_method req = GET \<Longrightarrow>
   res_json fw req obj fresh_res =
     (if fresh (major fw) req (etag_fn fw (stringify obj))
      then \<lparr>statusCode = 304, body = None\<rparr>
      else \<lparr>statusCode = 200, body = Some (stringify obj)\<rparr>)"
  by (simp add: res_json_def req_fresh_def fresh_res_def Let_def)

lemma res_json_path: "res_json fw (req\<lparr>path := s\<rparr>) obj r = res_json fw req obj r"
  by (simp add: res_json_def req_fresh_def fresh_path)

lemma handle_root_get:
  assumes "req_method req = GET" and "path req = ''/''"
  shows "handle_request fw p req =
     (Responded
        (if fresh (major fw) req
              (etag_fn fw (JObject [(''message'', JString ''Hello from Jenkins CI/CD!''),
                 (''version'', JString (case env p ''VERSION'' of None \<Rightarrow> ''1.0.0''
                    | Some v \<Rightarrow> if v = [] then ''1.0.0'' else v))]))
         then \<lparr>statusCode = 304, body = None\<rparr>
         else \<lparr>statusCode = 200,
                body = Some (JObject [(''message'', JString ''Hello from Jenkins CI/CD!''),
                 (''version'', JString (case env p ''VERSION'' of None \<Rightarrow> ''1.0.0''
                    | Some v \<Rightarrow> if v = [] then ''1.0.0'' else v))])\<rparr>), p)"
proof -
  have m: "route_matches (major fw) ''/'' (path req)"
    using assms by (simp add: rm_root routed_root_def)
  show ?thesis
    using assms m
    by (simp add: handle_request_def app_def app_get_def handles_method_def root_handler_def
        res_json_get version_str stringify_def List.map_filter_simps)
qed

lemma handle_health_get:
  assumes "req_method req = GET" and "path req = ''/health''"
  shows "handle_request fw p req =
     (Responded
        (if fresh (major fw) req (etag_fn fw (JObject [(''status'', JString ''healthy'')]))
         then \<lparr>statusCode = 304, body = None\<rparr>
         else \<lparr>statusCode = 200, body = Some (JObject [(''status'', JString ''healthy'')])\<rparr>),
      p)"
proof -
  have m: "route_matches (major fw) ''/health'' (path req)"
    and n: "\<not> route_matches (major fw) ''/'' (path req)"
    using assms by (simp_all add: rm_root rm_health routed_root_def routed_health_def spelt_def)
  show ?thesis
    using assms m n
    by (simp add: handle_request_def app_def app_get_def handles_method_def health_handler_def
        res_json_get stringify_def List.map_filter_simps)
qed

lemma handle_root:
  "handle_request fw p root_request =
   (greeting (case env p ''VERSION'' of None \<Rightarrow> ''1.0.0''
              | Some v \<Rightarrow> if v = [] then ''1.0.0'' else v), p)"
  using handle_root_get [of root_request fw p] fresh_plain [of root_request]
  by (simp add: root_request_def greeting_def)

lemma handle_health: "handle_request fw p health_request = (healthy, p)"
  using handle_health_get [of health_request fw p] fresh_plain [of health_request]
  by (simp add: health_request_def healthy_def)

lemma handle_state: "snd (handle_request fw p r) = p"
  by (simp add: handle_request_def app_def app_get_def root_handler_def health_handler_def)

lemma handle_env_only:
  "env p = env q \<Longrightarrow> fst (handle_request fw p r) = fst (handle_request fw q r)"
  by (simp add: handle_request_def app_def app_get_def root_handler_def health_handler_def)

lemma serve_state: "snd (serve fw p rs) = p"
proof (induction rs arbitrary: p)
  case Nil
  show ?case by simp
next
  case (Cons r rs)
  have "snd (handle_request fw p r) = p" by (rule handle_state)
  then show ?case using Cons.IH [of p] by (auto split: prod.splits)
qed

lemma serve_outcomes: "env p = env q \<Longrightarrow> fst (serve fw p reqs) = fst (serve fw q reqs)"
proof (induction reqs arbitrary: p q)
  case Nil
  show ?case by simp
next
  case (Cons r rs)
  have o: "fst (handle_request fw p r) = fst (handle_request fw q r)"
    using Cons.prems by (rule handle_env_only)
  have sp: "snd (handle_request fw p r) = p" and sq: "snd (handle_request fw q r) = q"
    by (rule handle_state)+
  from Cons.IH [OF Cons.prems] o sp sq show ?case
    by (auto split: prod.splits)
qed

lemma handle_routed_root:
  assumes "routed_root (major fw) (path req)"
  shows "handle_request fw p req = handle_request fw p (req\<lparr>path := ''/''\<rparr>)"
proof -
  have ne: "path req \<noteq> []" using assms by (auto simp add: routed_root_def)
  have m: "route_matches (major fw) ''/'' (path req)"
    using assms ne by (simp add: rm_root)
  have m': "route_matches (major fw) ''/'' ''/''"
    by (simp add: rm_root routed_root_def)
  show ?thesis
    using ne m m'
    by (simp add: handle_request_def app_def app_get_def root_handler_def res_json_path)
qed

lemma handle_routed_health:
  assumes "routed_health (path req)" and "\<not> routed_root (major fw) (path req)"
  shows "handle_request fw p req = handle_request fw p (req\<lparr>path := ''/health''\<rparr>)"
proof -
  have ne: "path req \<noteq> []" using assms(1) by (auto simp add: routed_health_def spelt_def)
  have m: "route_matches (major fw) ''/health'' (path req)"
    using assms by (simp add: rm_health)
  have n: "\<not> route_matches (major fw) ''/'' (path req)"
    using assms ne by (simp add: rm_root)
  have m': "route_matches (major fw) ''/health'' ''/health''"
    and n': "\<not> route_matches (major fw) ''/'' ''/health''"
    by (simp_all add: rm_root rm_health routed_root_def routed_health_def spelt_def)
  show ?thesis
    using ne m n m' n'
    by (simp add: handle_request_def app_def app_get_def health_handler_def res_json_path)
qed

lemma handle_unrouted:
  assumes "\<not> routed_root (major fw) (path req)" and "\<not> routed_health (path req)"
  shows "handle_request fw p req = (Fallthrough, p)"
proof (cases "path req = []")
  case True
  then show ?thesis by (simp add: handle_request_def)
next
  case False
  with assms show ?thesis
    by (simp add: handle_request_def app_def app_get_def rm_root rm_health)
qed

section \<open>Facts about the start and the life of the process\<close>

lemma digits_3000: "digits 3000 = ''3000''"
  by code_simp

lemma startup_env: "env (startup e) = e"
  by (simp add: startup_def Let_def)

lemma started_env: "env (started e) = e"
  by (simp add: started_def on_listening_def startup_env)

lemma started_PORT: "PORT (started e) = js_or (getenv e ''PORT'') (Num 3000)"
  by (simp add: started_def on_listening_def startup_def Let_def)

lemma started_server: "server (started e) = js_or (getenv e ''PORT'') (Num 3000)"
  by (simp add: started_def on_listening_def startup_def Let_def)

lemma step_PORT: "PORT (step fw p ev) = PORT p \<and> server (step fw p ev) = server p"
  by (cases ev) (simp_all add: handle_state setenv_def unsetenv_def)

lemma run_PORT: "PORT (run fw p evs) = PORT p \<and> server (run fw p evs) = server p"
  unfolding run_def
  by (induction evs arbitrary: p) (simp_all add: step_PORT)

lemma step_env: "\<not> touches k ev \<Longrightarrow> env (step fw p ev) k = env p k"
  by (cases ev) (simp_all add: handle_state setenv_def unsetenv_def)

lemma run_env: "\<forall>ev\<in>set evs. \<not> touches k ev \<Longrightarrow> env (run fw p evs) k = env p k"
  unfolding run_def
  by (induction evs arbitrary: p) (simp_all add: step_env)

section \<open>The root route\<close>

text \<open>
  Claim C1, as stated, says that every \<open>GET /\<close> of a process started with
  \<open>VERSION=2.3.4\<close> is answered with status 200 and the greeting with version
  \<open>2.3.4\<close>. A \<open>GET /\<close> with the header \<open>If-None-Match: *\<close> is answered with status
  304 and no body, because \<open>res.json\<close> checks the freshness of the client's copy; and
  after an assignment to \<open>process.env.VERSION\<close> the answer carries the new value.
\<close>

theorem conditional_root_not_modified:
  "fst (handle_request \<lparr>major = Express4, etag_fn = sample_etag\<rparr>
          (started [''VERSION'' \<mapsto> ''2.3.4''])
          \<lparr>req_method = GET, path = ''/'', if_none_match = AnyTag,
            if_modified_since = False, no_cache = False\<rparr>)
   = Responded \<lparr>statusCode = 304, body = None\<rparr> \<and>
   fst (handle_request \<lparr>major = Express4, etag_fn = sample_etag\<rparr>
          (run \<lparr>major = Express4, etag_fn = sample_etag\<rparr>
             (started [''VERSION'' \<mapsto> ''2.3.4'']) [Assign ''VERSION'' ''9.9.9''])
          root_request)
   = greeting ''9.9.9''"
  by (simp add: handle_root_get fresh_def handle_root run_def setenv_def started_env)

text \<open>
  Claim C1, amended. When the process is started with \<open>VERSION\<close> set to a non-empty
  string \<open>v\<close> and \<open>VERSION\<close> is not assigned or deleted afterwards, every \<open>GET /\<close>,
  whatever happened before it, is answered with status 200 and the JSON object with the
  greeting as \<open>message\<close> and \<open>v\<close> as \<open>version\<close>, unless the request is a conditional
  one that Express finds fresh, which is answered with status 304 and no body. A
  request with neither \<open>If-None-Match\<close> nor \<open>If-Modified-Since\<close> is never fresh.
  Handling leaves the process as it was.
\<close>

theorem root_version_set:
  assumes "e ''VERSION'' = Some v" and "v \<noteq> []"
    and "\<forall>ev\<in>set evs. \<not> touches ''VERSION'' ev"
    and "req_method req = GET" and "path req = ''/''"
  shows "handle_request fw (run fw (started e) evs) req
         = (Responded
              (if fresh (major fw) req
                    (etag_fn fw (JObject [(''message'', JString ''Hello from Jenkins CI/CD!''),
                                          (''version'', JString v)]))
               then \<lparr>statusCode = 304, body = None\<rparr>
               else \<lparr>statusCode = 200,
                      body = Some (JObject [(''message'', JString ''Hello from Jenkins CI/CD!''),
                                            (''version'', JString v)])\<rparr>),
            run fw (started e) evs) \<and>
         (if_none_match req = NoTag \<and> \<not> if_modified_since req \<longrightarrow>
            fst (handle_request fw (run fw (started e) evs) req)
            = Responded \<lparr>statusCode = 200,
                body = Some (JObject [(''message'', JString ''Hello from Jenkins CI/CD!''),
                                      (''version'', JString v)])\<rparr>)"
proof -
  have "env (run fw (started e) evs) ''VERSION'' = Some v"
    using assms(1,3) by (simp add: run_env started_env)
  with assms(2,4,5) show ?thesis
    using handle_root_get [of req fw "run fw (started e) evs"]
    by (simp add: fresh_plain)
qed

text \<open>
  With \<open>VERSION=2.3.4\<close> the version field of a plain \<open>GET /\<close> is exactly \<open>2.3.4\<close>.
\<close>

theorem root_version_set_witness:
  "[''VERSION'' \<mapsto> ''2.3.4''] ''VERSION'' = Some ''2.3.4'' \<and> ''2.3.4'' \<noteq> [] \<and>
   \<not> touches ''VERSION'' (Request health_request) \<and>
   \<not> touches ''VERSION'' (Assign ''PORT'' ''8080'') \<and>
   req_method root_request = GET \<and> path root_request = ''/'' \<and>
   if_none_match root_request = NoTag \<and> \<not> if_modified_since root_request \<and>
   fst (handle_request \<lparr>major = Express5, etag_fn = sample_etag\<rparr>
          (run \<lparr>major = Express5, etag_fn = sample_etag\<rparr> (started [''VERSION'' \<mapsto> ''2.3.4''])
             [Request health_request, Assign ''PORT'' ''8080''])
          root_request)
   = Responded \<lparr>statusCode = 200,
       body = Some (JObject [(''message'', JString ''Hello from Jenkins CI/CD!''),
                             (''version'', JString ''2.3.4'')])\<rparr>"
proof -
  have a: "[''VERSION'' \<mapsto> ''2.3.4''] ''VERSION'' = Some ''2.3.4''" and b: "''2.3.4'' \<noteq> []"
    by simp_all
  have c: "\<forall>ev\<in>set [Request health_request, Assign ''PORT'' ''8080'']. \<not> touches ''VERSION'' ev"
    by simp
  have t: "\<not> touches ''VERSION'' (Request health_request)"
    "\<not> touches ''VERSION'' (Assign ''PORT'' ''8080'')"
    by simp_all
  have d: "req_method root_request = GET" and f: "path root_request = ''/''"
    and g: "if_none_match root_request = NoTag" and h: "\<not> if_modified_since root_request"
    by (simp_all add: root_request_def)
  from root_version_set [where e = "[''VERSION'' \<mapsto> ''2.3.4'']" and v = "''2.3.4''"
      and evs = "[Request health_request, Assign ''PORT'' ''8080'']" and req = root_request
      and fw = "\<lparr>major = Express5, etag_fn = sample_etag\<rparr>", OF a b c d f]
    a b d f g h t
  show ?thesis by blast
qed




section \<open>The health route\<close>

text \<open>
  Claim C2, as stated, says that every \<open>GET /health\<close> is answered with status 200 and
  the body \<open>{status: healthy}\<close>. A \<open>GET /health\<close> with the header
  \<open>If-None-Match: *\<close> is answered with status 304 and no body.
\<close>

theorem conditional_health_not_modified:
  "fst (handle_request \<lparr>major = Express4, etag_fn = sample_etag\<rparr> (started Map.empty)
          \<lparr>req_method = GET, path = ''/health'', if_none_match = AnyTag,
            if_modified_since = False, no_cache = False\<rparr>)
   = Responded \<lparr>statusCode = 304, body = None\<rparr>"
  by (simp add: handle_health_get fresh_def)

text \<open>
  Claim C2, amended. For every start of the process and whatever happened since
  (requests served, assignments to the environment), every \<open>GET /health\<close> is answered
  with status 200 and the JSON object whose only field is \<open>status\<close> with the value
  \<open>healthy\<close>, unless the request is a conditional one that Express finds fresh, which is
  answered with status 304 and no body. A request with neither \<open>If-None-Match\<close> nor
  \<open>If-Modified-Since\<close> is never fresh.
\<close>

theorem health_always:
  assumes "req_method req = GET" and "path req = ''/health''"
  shows "handle_request fw (run fw (started e) evs) req
         = (Responded
              (if fresh (major fw) req (etag_fn fw (JObject [(''status'', JString ''healthy'')]))
               then \<lparr>statusCode = 304, body = None\<rparr>
               else \<lparr>statusCode = 200,
                      body = Some (JObject [(''status'', JString ''healthy'')])\<rparr>),
            run fw (started e) evs) \<and>
         (if_none_match req = NoTag \<and> \<not> if_modified_since req \<longrightarrow>
            fst (handle_request fw (run fw (started e) evs) req)
            = Responded \<lparr>statusCode = 200,
                body = Some (JObject [(''status'', JString ''healthy'')])\<rparr>)"
  using assms handle_health_get [of req fw "run fw (started e) evs"]
  by (simp add: fresh_plain)

theorem health_always_witness:
  "req_method health_request = GET \<and> path health_request = ''/health'' \<and>
   if_none_match health_request = NoTag \<and> \<not> if_modified_since health_request \<and>
   fst (handle_request \<lparr>major = Express4, etag_fn = sample_etag\<rparr>
          (run \<lparr>major = Express4, etag_fn = sample_etag\<rparr> (started [''VERSION'' \<mapsto> ''2.3.4''])
             [Assign ''VERSION'' ''9'', Request root_request])
          health_request)
   = Responded \<lparr>statusCode = 200,
       body = Some (JObject [(''status'', JString ''healthy'')])\<rparr>"
proof -
  have d: "req_method health_request = GET" and f: "path health_request = ''/health''"
    and g: "if_none_match health_request = NoTag" and h: "\<not> if_modified_since health_request"
    by (simp_all add: health_request_def)
  from health_always [where req = health_request
      and fw = "\<lparr>major = Express4, etag_fn = sample_etag\<rparr>"
      and e = "[''VERSION'' \<mapsto> ''2.3.4'']"
      and evs = "[Assign ''VERSION'' ''9'', Request root_request]", OF d f] d f g h
  show ?thesis by blast
qed

section \<open>The port\<close>

text \<open>
  Claim C4. When the process is started without \<open>PORT\<close>, the constant \<open>PORT\<close> is the
  number 3000, the server is asked to listen on 3000 and stays on it, and the start-up
  message names that port.
\<close>

theorem default_port:
  assumes "e ''PORT'' = None"
  shows "PORT (startup e) = Num 3000 \<and> server (startup e) = Num 3000 \<and>
         server (run fw (started e) evs) = Num 3000 \<and>
         console (started e) = [''Server running on port 3000'']"
  using assms
  by (simp add: run_PORT started_server)
     (simp add: started_def on_listening_def startup_def Let_def js_or_def getenv_def
        digits_3000)

theorem default_port_witness:
  "[''VERSION'' \<mapsto> ''2.3.4''] ''PORT'' = None \<and>
   server (startup [''VERSION'' \<mapsto> ''2.3.4'']) = Num 3000"
  using default_port [of "[''VERSION'' \<mapsto> ''2.3.4'']"]
  by simp

section \<open>When the configuration is read\<close>

text \<open>
  Claim C5, as stated, says that a change of \<open>VERSION\<close> after the start does not change
  a later answer of the root route. The handler reads \<open>process.env.VERSION\<close> at every
  request: after an assignment of \<open>2.0.0\<close> in a process started with \<open>VERSION=1.0.0\<close>
  the root route answers with version \<open>2.0.0\<close>, which is not the answer it gave before.
\<close>

theorem version_follows_environment:
  "fst (handle_request \<lparr>major = Express4, etag_fn = sample_etag\<rparr>
          (run \<lparr>major = Express4, etag_fn = sample_etag\<rparr>
             (started [''VERSION'' \<mapsto> ''1.0.0'']) [Assign ''VERSION'' ''2.0.0''])
          root_request) = greeting ''2.0.0'' \<and>
   fst (handle_request \<lparr>major = Express4, etag_fn = sample_etag\<rparr>
          (run \<lparr>major = Express4, etag_fn = sample_etag\<rparr>
             (started [''VERSION'' \<mapsto> ''1.0.0'']) [Assign ''VERSION'' ''2.0.0''])
          root_request)
   \<noteq> fst (handle_request \<lparr>major = Express4, etag_fn = sample_etag\<rparr>
          (started [''VERSION'' \<mapsto> ''1.0.0'']) root_request)"
  by (simp add: handle_root run_def setenv_def started_env greeting_def)

text \<open>
  Claim C5, amended. The port is read from the environment once, at the start, and is
  the same for the whole life of the process, whatever requests arrive and whatever is
  assigned to the environment later. The version string is not held: the root route
  answers with the value \<open>VERSION\<close> has in the environment at the time of the request
  (or \<open>1.0.0\<close> when it is unset or empty then).
\<close>

theorem port_fixed_version_per_request:
  "PORT (run fw (started e) evs) = js_or (getenv e ''PORT'') (Num 3000) \<and>
   server (run fw (started e) evs) = js_or (getenv e ''PORT'') (Num 3000) \<and>
   fst (handle_request fw (run fw (started e) evs) root_request)
   = Responded \<lparr>statusCode = 200,
       body = Some (stringify
         [(''message'', Str ''Hello from Jenkins CI/CD!''),
          (''version'', js_or (getenv (env (run fw (started e) evs)) ''VERSION'')
                          (Str ''1.0.0''))])\<rparr>"
  by (simp add: run_PORT started_PORT started_server handle_root version_str greeting_def
      stringify_def List.map_filter_simps)

section \<open>Request handling has no effect on the process\<close>

text \<open>
  Claim C7. For a fixed environment every request gets the same answer: a request
  served after any others in one process gets the answer that any process with the
  same environment gives, two processes with the same environment answer a sequence of
  requests alike, and handling a request leaves the whole process state (environment,
  port, server, console) unchanged. This holds for every request, so in particular for
  \<open>GET /\<close> and \<open>GET /health\<close>.
\<close>

theorem handling_is_pure:
  assumes "env p = env q"
  shows "fst (handle_request fw (snd (serve fw p reqs)) req) = fst (handle_request fw q req) \<and>
         fst (serve fw p reqs) = fst (serve fw q reqs) \<and>
         snd (handle_request fw p req) = p"
proof -
  have "fst (handle_request fw p req) = fst (handle_request fw q req)"
    using assms by (rule handle_env_only)
  moreover have "fst (serve fw p reqs) = fst (serve fw q reqs)"
    using assms by (rule serve_outcomes)
  ultimately show ?thesis
    by (simp add: serve_state handle_state)
qed

theorem handling_is_pure_witness:
  "env (started [''VERSION'' \<mapsto> ''2.3.4'']) = env (startup [''VERSION'' \<mapsto> ''2.3.4'']) \<and>
   fst (handle_request \<lparr>major = Express4, etag_fn = sample_etag\<rparr>
          (snd (serve \<lparr>major = Express4, etag_fn = sample_etag\<rparr>
                  (started [''VERSION'' \<mapsto> ''2.3.4'']) [root_request]))
          root_request)
     = fst (handle_request \<lparr>major = Express4, etag_fn = sample_etag\<rparr>
              (startup [''VERSION'' \<mapsto> ''2.3.4'']) root_request) \<and>
   snd (handle_request \<lparr>major = Express4, etag_fn = sample_etag\<rparr>
          (started [''VERSION'' \<mapsto> ''2.3.4'']) root_request)
     = started [''VERSION'' \<mapsto> ''2.3.4'']"
  using handling_is_pure [of "started [''VERSION'' \<mapsto> ''2.3.4'']"
      "startup [''VERSION'' \<mapsto> ''2.3.4'']" "\<lparr>major = Express4, etag_fn = sample_etag\<rparr>"
      "[root_request]" root_request]
  by (simp add: started_env startup_env)

section \<open>Paths with and without a route\<close>

text \<open>
  Claim C8, as stated, says that no handler answers a request whose path is neither
  \<open>/\<close> nor \<open>/health\<close>. The path \<open>/health/\<close> is neither, and the health handler answers
  it, because the routes are matched with one optional trailing slash.
\<close>

theorem trailing_slash_reaches_health:
  "''/health/'' \<noteq> ''/'' \<and> ''/health/'' \<noteq> ''/health'' \<and>
   fst (handle_request \<lparr>major = Express4, etag_fn = sample_etag\<rparr> (started Map.empty)
          \<lparr>req_method = GET, path = ''/health/'', if_none_match = NoTag,
            if_modified_since = False, no_cache = False\<rparr>) = healthy"
proof -
  have "routed_health ''/health/''" and "\<not> routed_root Express4 ''/health/''"
    by (simp_all add: routed_health_def routed_root_def spelt_def)
  then show ?thesis
    using handle_health [of "\<lparr>major = Express4, etag_fn = sample_etag\<rparr>" "started Map.empty"]
    by (simp add: handle_routed_health health_request_def)
qed

text \<open>
  Claim C8, amended. Exactly two routes exist, \<open>/\<close> and \<open>/health\<close>, and they are
  matched without regard to letter case and with one optional trailing slash. The root
  route answers the path \<open>/\<close> (and, under Express 5, \<open>//\<close>); the health route answers
  \<open>/health\<close> and \<open>/health/\<close> with each letter in either case; each such request is
  answered exactly as the same request for \<open>/\<close> or \<open>/health\<close> is, so a plain \<open>GET\<close>
  gets the greeting or the health reply with status 200. Every request, of any method,
  with any other path reaches no handler: it falls through to the default not-found
  handling and the process is unchanged.
\<close>

theorem routes_exactly:
  "map fst app = [''/'', ''/health''] \<and>
   handle_request fw p req =
     (if routed_root (major fw) (path req) then handle_request fw p (req\<lparr>path := ''/''\<rparr>)
      else if routed_health (path req) then handle_request fw p (req\<lparr>path := ''/health''\<rparr>)
      else (Fallthrough, p)) \<and>
   (req_method req = GET \<and> if_none_match req = NoTag \<and> \<not> if_modified_since req \<longrightarrow>
      fst (handle_request fw p req) =
       (if routed_root (major fw) (path req)
        then Responded \<lparr>statusCode = 200,
               body = Some (stringify
                 [(''message'', Str ''Hello from Jenkins CI/CD!''),
                  (''version'', js_or (getenv (env p) ''VERSION'') (Str ''1.0.0''))])\<rparr>
        else if routed_health (path req)
        then Responded \<lparr>statusCode = 200,
               body = Some (JObject [(''status'', JString ''healthy'')])\<rparr>
        else Fallthrough))"
proof -
  have a: "map fst app = [''/'', ''/health'']"
    by (simp add: app_def app_get_def)
  have b: "handle_request fw p req =
     (if routed_root (major fw) (path req) then handle_request fw p (req\<lparr>path := ''/''\<rparr>)
      else if routed_health (path req) then handle_request fw p (req\<lparr>path := ''/health''\<rparr>)
      else (Fallthrough, p))"
    using handle_routed_root [of fw req p] handle_routed_health [of req fw p]
      handle_unrouted [of fw req p]
    by simp
  have c: "fst (handle_request fw p req) =
       (if routed_root (major fw) (path req)
        then Responded \<lparr>statusCode = 200,
               body = Some (stringify
                 [(''message'', Str ''Hello from Jenkins CI/CD!''),
                  (''version'', js_or (getenv (env p) ''VERSION'') (Str ''1.0.0''))])\<rparr>
        else if routed_health (path req)
        then Responded \<lparr>statusCode = 200,
               body = Some (JObject [(''status'', JString ''healthy'')])\<rparr>
        else Fallthrough)"
    if g: "req_method req = GET" and n: "if_none_match req = NoTag"
      and m: "\<not> if_modified_since req"
  proof -
    have f1: "\<not> fresh (major fw) (req\<lparr>path := ''/''\<rparr>) t" for t
      using n m by (simp add: fresh_path fresh_plain)
    have f2: "\<not> fresh (major fw) (req\<lparr>path := ''/health''\<rparr>) t" for t
      using n m by (simp add: fresh_path fresh_plain)
    have r: "fst (handle_request fw p (req\<lparr>path := ''/''\<rparr>)) =
        Responded \<lparr>statusCode = 200,
               body = Some (stringify
                 [(''message'', Str ''Hello from Jenkins CI/CD!''),
                  (''version'', js_or (getenv (env p) ''VERSION'') (Str ''1.0.0''))])\<rparr>"
      using g f1 handle_root_get [of "req\<lparr>path := ''/''\<rparr>" fw p]
      by (simp add: version_str stringify_def List.map_filter_simps)
    have h: "fst (handle_request fw p (req\<lparr>path := ''/health''\<rparr>)) =
        Responded \<lparr>statusCode = 200,
               body = Some (JObject [(''status'', JString ''healthy'')])\<rparr>"
      using g f2 handle_health_get [of "req\<lparr>path := ''/health''\<rparr>" fw p]
      by simp
    show ?thesis
      by (subst b) (simp add: r h)
  qed
  from a b c show ?thesis by blast
qed

theorem routes_exactly_witness:
  "routed_health ''/HeAlTh/'' \<and> \<not> routed_root Express5 ''/HeAlTh/'' \<and>
   fst (handle_request \<lparr>major = Express5, etag_fn = sample_etag\<rparr> (started Map.empty)
          \<lparr>req_method = GET, path = ''/HeAlTh/'', if_none_match = NoTag,
            if_modified_since = False, no_cache = False\<rparr>)
   = Responded \<lparr>statusCode = 200,
       body = Some (JObject [(''status'', JString ''healthy'')])\<rparr> \<and>
   \<not> routed_health ''/metrics'' \<and> \<not> routed_root Express5 ''/metrics'' \<and>
   handle_request \<lparr>major = Express5, etag_fn = sample_etag\<rparr> (started Map.empty)
          \<lparr>req_method = GET, path = ''/metrics'', if_none_match = NoTag,
            if_modified_since = False, no_cache = False\<rparr>
   = (Fallthrough, started Map.empty) \<and>
   routed_root Express5 ''//'' \<and> \<not> routed_root Express4 ''//'' \<and>
   body_field ''version''
     (fst (handle_request \<lparr>major = Express5, etag_fn = sample_etag\<rparr> (started Map.empty)
          \<lparr>req_method = GET, path = ''//'', if_none_match = NoTag,
            if_modified_since = False, no_cache = False\<rparr>)) = Some (JString ''1.0.0'') \<and>
   fst (handle_request \<lparr>major = Express4, etag_fn = sample_etag\<rparr> (started Map.empty)
          \<lparr>req_method = GET, path = ''//'', if_none_match = NoTag,
            if_modified_since = False, no_cache = False\<rparr>) = Fallthrough"
proof -
  have s: "routed_health ''/HeAlTh/''" "\<not> routed_root Express5 ''/HeAlTh/''"
    "\<not> routed_health ''/metrics''" "\<not> routed_root Express5 ''/metrics''"
    "routed_root Express5 ''//''" "\<not> routed_root Express4 ''//''" "\<not> routed_health ''//''"
    by (simp_all add: routed_health_def routed_root_def spelt_def)
  have v: "js_or (getenv (env (started Map.empty)) ''VERSION'') (Str ''1.0.0'') = Str ''1.0.0''"
    by (simp add: started_env js_or_def getenv_def)
  note eq = routes_exactly [THEN conjunct2, THEN conjunct1]
  note plain = routes_exactly [THEN conjunct2, THEN conjunct2, rule_format]
  have t1: "fst (handle_request \<lparr>major = Express5, etag_fn = sample_etag\<rparr> (started Map.empty)
          \<lparr>req_method = GET, path = ''/HeAlTh/'', if_none_match = NoTag,
            if_modified_since = False, no_cache = False\<rparr>)
     = Responded \<lparr>statusCode = 200,
         body = Some (JObject [(''status'', JString ''healthy'')])\<rparr>"
    using s by (subst plain) simp_all
  have t2: "handle_request \<lparr>major = Express5, etag_fn = sample_etag\<rparr> (started Map.empty)
          \<lparr>req_method = GET, path = ''/metrics'', if_none_match = NoTag,
            if_modified_since = False, no_cache = False\<rparr>
     = (Fallthrough, started Map.empty)"
    using s by (subst eq) simp
  have t3: "body_field ''version''
     (fst (handle_request \<lparr>major = Express5, etag_fn = sample_etag\<rparr> (started Map.empty)
          \<lparr>req_method = GET, path = ''//'', if_none_match = NoTag,
            if_modified_since = False, no_cache = False\<rparr>)) = Some (JString ''1.0.0'')"
    using s by (subst plain) (simp_all add: v stringify_def List.map_filter_simps)
  have t4: "fst (handle_request \<lparr>major = Express4, etag_fn = sample_etag\<rparr> (started Map.empty)
          \<lparr>req_method = GET, path = ''//'', if_none_match = NoTag,
            if_modified_since = False, no_cache = False\<rparr>) = Fallthrough"
    using s by (subst plain) simp_all
  from s t1 t2 t3 t4 show ?thesis by blast
qed

section \<open>Empty values\<close>

text \<open>
  Claim C10. An empty \<open>PORT\<close> or \<open>VERSION\<close> behaves as an unset one. With \<open>PORT\<close>
  empty the server is asked to listen on 3000, and the process starts in the state it
  would start in without \<open>PORT\<close> (but for the environment itself). With \<open>VERSION\<close>
  empty the root route answers with version \<open>1.0.0\<close>, the answer it gives without
  \<open>VERSION\<close>.
\<close>

theorem empty_value_is_unset:
  assumes "e ''PORT'' = Some []" and "e' ''VERSION'' = Some []"
  shows "server (startup e) = Num 3000 \<and>
         startup e = (startup (e(''PORT'' := None)))\<lparr>env := e\<rparr> \<and>
         body_field ''version'' (fst (handle_request fw (started e') root_request))
           = Some (JString ''1.0.0'') \<and>
         fst (handle_request fw (started e') root_request)
           = fst (handle_request fw (started (e'(''VERSION'' := None))) root_request)"
  using assms
  by (simp add: handle_root started_env greeting_def startup_def Let_def js_or_def getenv_def)

theorem empty_value_is_unset_witness:
  "[''PORT'' \<mapsto> []] ''PORT'' = Some [] \<and> [''VERSION'' \<mapsto> []] ''VERSION'' = Some [] \<and>
   server (startup [''PORT'' \<mapsto> []]) = Num 3000 \<and>
   body_field ''version''
     (fst (handle_request \<lparr>major = Express4, etag_fn = sample_etag\<rparr>
             (started [''VERSION'' \<mapsto> []]) root_request))
     = Some (JString ''1.0.0'')"
proof -
  have p: "[''PORT'' \<mapsto> []] ''PORT'' = Some []" by simp
  have v: "[''VERSION'' \<mapsto> []] ''VERSION'' = Some []" by simp
  from empty_value_is_unset [where e = "[''PORT'' \<mapsto> []]" and e' = "[''VERSION'' \<mapsto> []]"
      and fw = "\<lparr>major = Express4, etag_fn = sample_etag\<rparr>", OF p v] p v
  show ?thesis by blast
qed

end
